theory Spec2Isabelle
  imports Main
begin

section \<open>The authenticated dispatch layer of \<^verbatim>\<open>digikey/v4/api.py\<close>\<close>

text \<open>
  A shallow embedding of \<^verbatim>\<open>_DigikeyApiWrapper\<close> and \<^verbatim>\<open>DigikeyApi\<close>.
  Python objects that a caller hands in and that the code mutates (the two output
  dictionaries) are passed in and returned updated; every \<^verbatim>\<open>raise\<close> is a value
  \<open>Inl e\<close>; the collaborators that are imported from other modules (the token handler and
  the generated clients) are the fields of an environment record.
\<close>

subsection \<open>Python values, exceptions and dictionaries\<close>

text \<open>
  The values that cross the wrapper: \<^verbatim>\<open>None\<close>, booleans, integers, strings, and
  instances of the generated request and response classes (class name and an opaque
  description of the instance).
\<close>

datatype pyval =
  PyNone
| PyBool bool
| PyInt int
| PyStr string
| PyObj string string

text \<open>
  The three modules that \<^verbatim>\<open>__init__\<close> knows, and any other hashable object a caller
  may pass as \<^verbatim>\<open>module\<close> (the parameter is typed \<^verbatim>\<open>Any\<close>).
\<close>

datatype py_module =
  ProductInformation
| OrderSupport
| BatchProductDetails
| OtherModule string

text \<open>
  Exceptions. Each generated client package has a \<^verbatim>\<open>rest\<close> module of its own with a
  class \<^verbatim>\<open>ApiException\<close>; line 14 imports the one of
  \<^verbatim>\<open>digikey.v4.productinformation\<close> under the name \<^verbatim>\<open>ProductInfoApiException\<close>.
  \<open>ApiException m s\<close> is an instance of the class of package \<open>m\<close> whose attribute
  \<^verbatim>\<open>status\<close> is \<open>s\<close> (the generated constructor leaves it \<^verbatim>\<open>None\<close> when no HTTP
  response is attached).
\<close>

datatype py_exception =
  KeyError
| ValueError string
| TypeError
| AttributeError
| AssertionError
| DigikeyError string
| ConfigurationError string
| AuthenticationError
| ApiException py_module pyval
| OtherException string

text \<open>\<^verbatim>\<open>isinstance(e, ProductInfoApiException)\<close>, the test of the first \<^verbatim>\<open>except\<close> clause.\<close>

fun is_ProductInfoApiException :: "py_exception \<Rightarrow> bool" where
  "is_ProductInfoApiException (ApiException ProductInformation s) = True"
| "is_ProductInfoApiException e = False"

text \<open>
  An output parameter (\<^verbatim>\<open>api_limits\<close>, \<^verbatim>\<open>status\<close>) is either a dictionary with string
  keys, or anything else: \<open>NotDict PyNone\<close> is the default \<^verbatim>\<open>None\<close>. The two parameters
  are taken to be distinct objects.
\<close>

datatype sink =
  Dict "string \<rightharpoonup> pyval"
| NotDict pyval

text \<open>A response header, \<^verbatim>\<open>Dict[str, str]\<close>.\<close>

type_synonym header = "string \<rightharpoonup> string"

subsection \<open>The built-in \<^verbatim>\<open>int\<close>\<close>

text \<open>
  A \<^verbatim>\<open>str\<close> is modelled as the list of its code points, each below 256: a header value
  is such a string, since the HTTP client decodes header lines as ISO-8859-1.

  \<^verbatim>\<open>int(s)\<close> strips white space at both ends, allows one sign, and wants what remains
  to be decimal digits, with single underscores allowed between two digits. The white
  space it strips is the six ASCII characters and, of the code points from 128 on,
  U+0085 and U+00A0; none of the code points from 128 to 255 is a decimal digit. Anything
  else raises \<^verbatim>\<open>ValueError\<close>. So does a literal of more digits than the interpreter
  allows: the limit is a setting of the process (\<^verbatim>\<open>sys.set_int_max_str_digits\<close>, 4300
  unless changed, 0 for no limit), and it is applied only to literals of more than 640
  digits (\<^verbatim>\<open>sys.int_info.str_digits_check_threshold\<close>). \<open>None\<close> stands for the
  \<^verbatim>\<open>ValueError\<close>.
\<close>

definition is_space :: "char \<Rightarrow> bool" where
  "is_space c =
     (c \<in> set [CHR '' '', CHR 0x09, CHR 0x0A, CHR 0x0B, CHR 0x0C, CHR 0x0D, CHR 0x85, CHR 0xA0])"

definition digit_of :: "char \<Rightarrow> nat option" where
  "digit_of = map_of
     [(CHR ''0'', 0), (CHR ''1'', 1), (CHR ''2'', 2), (CHR ''3'', 3), (CHR ''4'', 4),
      (CHR ''5'', 5), (CHR ''6'', 6), (CHR ''7'', 7), (CHR ''8'', 8), (CHR ''9'', 9)]"

definition strip :: "string \<Rightarrow> string" where
  "strip s = rev (dropWhile is_space (rev (dropWhile is_space s)))"

text \<open>
  \<open>scan_digits cs us acc\<close> reads the rest of a literal: \<open>us\<close> says that the character
  just read was an underscore, \<open>acc\<close> is the value of the digits read so far.
\<close>

fun scan_digits :: "string \<Rightarrow> bool \<Rightarrow> nat \<Rightarrow> nat option" where
  "scan_digits [] us acc = (if us then None else Some acc)"
| "scan_digits (c # cs) us acc =
     (case digit_of c of
        Some d \<Rightarrow> scan_digits cs False (10 * acc + d)
      | None \<Rightarrow> if c = CHR ''_'' \<and> \<not> us then scan_digits cs True acc else None)"

definition str_digits_check_threshold :: nat where
  "str_digits_check_threshold = 640"

text \<open>\<open>py_int limit s\<close> is \<^verbatim>\<open>int(s)\<close> in a process whose limit on digits is \<open>limit\<close>.\<close>

definition py_int :: "nat \<Rightarrow> string \<Rightarrow> int option" where
  "py_int limit s =
     (let t = strip s;
          (neg, body) =
            (case t of
               [] \<Rightarrow> (False, [])
             | c # cs \<Rightarrow>
                 if c = CHR ''-'' then (True, cs)
                 else if c = CHR ''+'' then (False, cs)
                 else (False, t))
      in case body of
           [] \<Rightarrow> None
         | c # cs \<Rightarrow>
             (case digit_of c of
                None \<Rightarrow> None
              | Some d \<Rightarrow>
                  (case scan_digits cs False d of
                     None \<Rightarrow> None
                   | Some n \<Rightarrow>
                       (let digits = length (filter (\<lambda>x. digit_of x \<noteq> None) body)
                        in if str_digits_check_threshold < digits \<and> 0 < limit \<and> limit < digits
                           then None
                           else Some (if neg then - int n else int n)))))"

text \<open>\<^verbatim>\<open>int(x)\<close> on any value: \<^verbatim>\<open>None\<close> and class instances raise \<^verbatim>\<open>TypeError\<close>.\<close>

fun py_int_of :: "nat \<Rightarrow> pyval \<Rightarrow> py_exception + int" where
  "py_int_of limit (PyInt n) = Inr n"
| "py_int_of limit (PyBool b) = Inr (if b then 1 else 0)"
| "py_int_of limit (PyStr s) =
     (case py_int limit s of
        None \<Rightarrow> Inl (ValueError ''invalid literal for int()'')
      | Some n \<Rightarrow> Inr n)"
| "py_int_of limit PyNone = Inl TypeError"
| "py_int_of limit (PyObj c r) = Inl TypeError"

subsection \<open>Metadata extraction\<close>

text \<open>
  The \<^verbatim>\<open>try\<close> block of \<^verbatim>\<open>_remaining_requests\<close> (lines 126 to 135): what it raises, if
  anything, and the dictionary as it stands at that moment. The first assignment is
  visible when the second conversion raises. Here and below \<open>limit\<close> is the limit on
  digits of the process, which \<^verbatim>\<open>int\<close> consults.
\<close>

definition remaining_requests_try ::
  "nat \<Rightarrow> header \<Rightarrow> sink \<Rightarrow> (py_exception + unit) \<times> sink" where
  "remaining_requests_try limit header api_limits =
     (case header ''X-RateLimit-Limit'' of
        None \<Rightarrow> (Inl KeyError, api_limits)
      | Some rate_limit \<Rightarrow>
          (case header ''X-RateLimit-Remaining'' of
             None \<Rightarrow> (Inl KeyError, api_limits)
           | Some rate_limit_rem \<Rightarrow>
               (case api_limits of
                  NotDict v \<Rightarrow> (Inr (), NotDict v)
                | Dict d \<Rightarrow>
                    (case py_int limit rate_limit of
                       None \<Rightarrow> (Inl (ValueError ''invalid literal for int()''), Dict d)
                     | Some l \<Rightarrow>
                         (case py_int limit rate_limit_rem of
                            None \<Rightarrow>
                              (Inl (ValueError ''invalid literal for int()''),
                               Dict (d(''api_requests_limit'' \<mapsto> PyInt l)))
                          | Some r \<Rightarrow>
                              (Inr (),
                               Dict (d(''api_requests_limit'' \<mapsto> PyInt l,
                                       ''api_requests_remaining'' \<mapsto> PyInt r))))))))"

text \<open>The clause \<^verbatim>\<open>except (KeyError, ValueError)\<close>.\<close>

fun is_KeyError_or_ValueError :: "py_exception \<Rightarrow> bool" where
  "is_KeyError_or_ValueError KeyError = True"
| "is_KeyError_or_ValueError (ValueError m) = True"
| "is_KeyError_or_ValueError e = False"

definition remaining_requests ::
  "nat \<Rightarrow> header \<Rightarrow> sink \<Rightarrow> (py_exception + unit) \<times> sink" where
  "remaining_requests limit header api_limits =
     (case remaining_requests_try limit header api_limits of
        (Inr u, s) \<Rightarrow> (Inr u, s)
      | (Inl e, s) \<Rightarrow>
          if is_KeyError_or_ValueError e then
            (case s of
               Dict d \<Rightarrow>
                 (Inr (), Dict (d(''api_requests_limit'' \<mapsto> PyNone,
                                  ''api_requests_remaining'' \<mapsto> PyNone)))
             | NotDict v \<Rightarrow> (Inr (), NotDict v))
          else (Inl e, s))"

definition store_api_statuscode ::
  "nat \<Rightarrow> pyval \<Rightarrow> sink \<Rightarrow> (py_exception + unit) \<times> sink" where
  "store_api_statuscode limit statuscode status =
     (case status of
        NotDict v \<Rightarrow> (Inr (), NotDict v)
      | Dict d \<Rightarrow>
          (case py_int_of limit statuscode of
             Inl e \<Rightarrow> (Inl e, Dict d)
           | Inr n \<Rightarrow> (Inr (), Dict (d(''code'' \<mapsto> PyInt n)))))"

subsection \<open>Collaborators\<close>

text \<open>
  The token handler (\<^verbatim>\<open>digikey.oauth.oauth2.TokenHandler\<close>) and the generated clients are
  imported; the wrapper sees them through three entry points, which the environment
  provides: the constructors of the \<^verbatim>\<open>Configuration\<close> classes;
  \<^verbatim>\<open>TokenHandler(...).get_access_token()\<close>, which returns a token or raises, and reports
  the network I/O it did on the way; and \<^verbatim>\<open>getattr\<close> on the client instance, which
  returns the named operation or raises \<^verbatim>\<open>AttributeError\<close>. The network I/O is kept in a
  log of events: the exchanges with the authorization endpoint that the token handler
  reports, and the calls of operations of the generated clients. The environment also
  holds the limit on digits that \<^verbatim>\<open>int\<close> consults.
\<close>

record token_handler_args =
  a_id :: string
  a_secret :: string
  a_token_storage_path :: string
  version :: int
  a_sandbox :: bool

text \<open>The token object: its attribute \<^verbatim>\<open>access_token\<close> and what \<^verbatim>\<open>get_authorization()\<close> returns.\<close>

record token =
  tok_access_token :: string
  tok_authorization :: string

datatype config_class =
  ProductInfoConfiguration
| OrderDetailsConfiguration
| BatchSearchConfiguration

datatype api_class =
  ProductSearchApi
| OrderDetailsApi
| BatchSearchApi

text \<open>
  The attributes of a generated \<^verbatim>\<open>Configuration\<close> object that the wrapper assigns, and
  the class of the object. The classes are imported, so what a new instance holds is left
  to the environment.
\<close>

record configuration =
  config_class :: config_class
  api_key :: "string \<rightharpoonup> pyval"
  host :: string
  access_token :: string

text \<open>\<^verbatim>\<open>apiclass(module.ApiClient(configuration))\<close>\<close>

record api_object =
  api_class :: api_class
  client_module :: py_module
  client_configuration :: configuration

type_synonym response = "pyval \<times> int \<times> header"

type_synonym operation = "pyval list \<Rightarrow> (string \<rightharpoonup> pyval) \<Rightarrow> py_exception + response"

datatype io_event =
  TokenExchange token_handler_args
| ApiCall string "pyval list" "string \<rightharpoonup> pyval"

record env =
  new_configuration :: "config_class \<Rightarrow> configuration"
  get_access_token :: "token_handler_args \<Rightarrow> (py_exception + token) \<times> io_event list"
  getattr_api :: "api_object \<Rightarrow> string \<Rightarrow> operation option"
  int_max_str_digits :: nat


subsection \<open>\<^verbatim>\<open>_DigikeyApiWrapper.__init__\<close>\<close>

record wrapper =
  sandbox :: bool
  digikeyApiToken :: token
  api_instance :: api_object
  authorization :: string
  x_digikey_client_id :: string
  wrapped_function_name :: string

text \<open>The two dictionaries of lines 58 to 68; \<open>None\<close> is the \<^verbatim>\<open>KeyError\<close> of a lookup.\<close>

fun apinames :: "py_module \<Rightarrow> string option" where
  "apinames ProductInformation = Some ''products''"
| "apinames OrderSupport = Some ''OrderDetails''"
| "apinames BatchProductDetails = Some ''BatchSearch''"
| "apinames (OtherModule m) = None"

fun apiclasses :: "py_module \<Rightarrow> api_class option" where
  "apiclasses ProductInformation = Some ProductSearchApi"
| "apiclasses OrderSupport = Some OrderDetailsApi"
| "apiclasses BatchProductDetails = Some BatchSearchApi"
| "apiclasses (OtherModule m) = None"

text \<open>The chain of lines 74 to 81; \<open>None\<close> is its \<^verbatim>\<open>else\<close> branch.\<close>

fun select_configuration :: "env \<Rightarrow> py_module \<Rightarrow> configuration option" where
  "select_configuration env ProductInformation =
     Some (new_configuration env ProductInfoConfiguration)"
| "select_configuration env OrderSupport =
     Some (new_configuration env OrderDetailsConfiguration)"
| "select_configuration env BatchProductDetails =
     Some (new_configuration env BatchSearchConfiguration)"
| "select_configuration env (OtherModule m) = None"

fun pyval_of_str_option :: "string option \<Rightarrow> pyval" where
  "pyval_of_str_option None = PyNone"
| "pyval_of_str_option (Some s) = PyStr s"

text \<open>
  The constructor takes the log of I/O events so far and returns the new wrapper, or the
  exception raised, with the log as it stands then: what the token handler reports is
  appended to it.
\<close>

definition DigikeyApiWrapper_init ::
  "env \<Rightarrow> string \<Rightarrow> py_module \<Rightarrow> string option \<Rightarrow> string option \<Rightarrow> string \<Rightarrow> bool \<Rightarrow>
   io_event list \<Rightarrow> (py_exception + wrapper) \<times> io_event list" where
  "DigikeyApiWrapper_init env fname module cid csecret spath sbox log =
     (case apinames module of
        None \<Rightarrow> (Inl KeyError, log)
      | Some apiname \<Rightarrow>
     (case apiclasses module of
        None \<Rightarrow> (Inl KeyError, log)
      | Some apiclass \<Rightarrow>
     (case select_configuration env module of
        None \<Rightarrow> (Inl (ValueError ''Invalid module provided''), log)
      | Some configuration0 \<Rightarrow>
     (let configuration1 =
            configuration0\<lparr>api_key :=
              (api_key configuration0)(''X-DIGIKEY-Client-Id'' \<mapsto> pyval_of_str_option cid)\<rparr>
      in
      case (cid, csecret) of
        (Some c, Some s) \<Rightarrow>
          (let configuration2 =
                 configuration1\<lparr>host :=
                   (if sbox then ''https://sandbox-api.digikey.com/'' @ apiname @ ''/v4''
                    else ''https://api.digikey.com/'' @ apiname @ ''/v4'')\<rparr>;
               request =
                 \<lparr>a_id = c, a_secret = s, a_token_storage_path = spath, version = 3,
                  a_sandbox = sbox\<rparr>;
               answer = get_access_token env request;
               log1 = log @ snd answer
           in case fst answer of
                Inl e \<Rightarrow> (Inl e, log1)
              | Inr tok \<Rightarrow>
                  (let configuration3 = configuration2\<lparr>access_token := tok_access_token tok\<rparr>
                   in (Inr \<lparr>sandbox = sbox,
                            digikeyApiToken = tok,
                            api_instance =
                              \<lparr>api_class = apiclass, client_module = module,
                               client_configuration = configuration3\<rparr>,
                            authorization = tok_authorization tok,
                            x_digikey_client_id = c,
                            wrapped_function_name = fname\<rparr>,
                       log1)))
      | _ \<Rightarrow>
          (Inl (DigikeyError
                 ''Please provide a valid DIGIKEY_CLIENT_ID and DIGIKEY_CLIENT_SECRET''),
           log)))))"

subsection \<open>\<^verbatim>\<open>_DigikeyApiWrapper.call_api_function\<close>\<close>

text \<open>
  What a call leaves behind: the value returned or the exception raised, the two output
  parameters as they are afterwards, and the log of I/O events.
\<close>

record outcome =
  returned :: "py_exception + pyval"
  api_limits_after :: sink
  status_after :: sink
  io_after :: "io_event list"

text \<open>
  The \<^verbatim>\<open>try\<close> block (lines 176 to 187). Python rejects a keyword given twice with
  \<^verbatim>\<open>TypeError\<close> before the operation is entered, which happens when the caller's
  \<^verbatim>\<open>kwargs\<close> name \<^verbatim>\<open>authorization\<close>.
\<close>

definition call_api_function_try ::
  "env \<Rightarrow> wrapper \<Rightarrow> pyval list \<Rightarrow> sink \<Rightarrow> sink \<Rightarrow> (string \<rightharpoonup> pyval) \<Rightarrow> io_event list \<Rightarrow> outcome"
  where
  "call_api_function_try env self args api_limits status kwargs log =
     (case getattr_api env (api_instance self) (wrapped_function_name self) of
        None \<Rightarrow>
          \<lparr>returned = Inl AttributeError, api_limits_after = api_limits,
           status_after = status, io_after = log\<rparr>
      | Some func \<Rightarrow>
          if kwargs ''authorization'' \<noteq> None then
            \<lparr>returned = Inl TypeError, api_limits_after = api_limits,
             status_after = status, io_after = log\<rparr>
          else
            (let pos = args @ [PyStr (x_digikey_client_id self)];
                 kw = kwargs(''authorization'' \<mapsto> PyStr (authorization self));
                 log1 = log @ [ApiCall (wrapped_function_name self) pos kw]
             in case func pos kw of
                  Inl e \<Rightarrow>
                    \<lparr>returned = Inl e, api_limits_after = api_limits,
                     status_after = status, io_after = log1\<rparr>
                | Inr (payload, status_code, headers) \<Rightarrow>
                    (case remaining_requests (int_max_str_digits env) headers api_limits of
                       (Inl e, limits1) \<Rightarrow>
                         \<lparr>returned = Inl e, api_limits_after = limits1,
                          status_after = status, io_after = log1\<rparr>
                     | (Inr u, limits1) \<Rightarrow>
                         (case store_api_statuscode (int_max_str_digits env)
                                 (PyInt status_code) status of
                            (Inl e, status1) \<Rightarrow>
                              \<lparr>returned = Inl e, api_limits_after = limits1,
                               status_after = status1, io_after = log1\<rparr>
                          | (Inr v, status1) \<Rightarrow>
                              \<lparr>returned = Inr payload, api_limits_after = limits1,
                               status_after = status1, io_after = log1\<rparr>))))"

text \<open>The attribute \<^verbatim>\<open>status\<close> of an exception caught by the first \<^verbatim>\<open>except\<close> clause.\<close>

fun exception_status :: "py_exception \<Rightarrow> pyval" where
  "exception_status (ApiException m s) = s"
| "exception_status e = PyNone"

text \<open>
  The two \<^verbatim>\<open>except\<close> clauses (lines 188 to 196). The first stores the status and
  re-raises; an exception raised by the store itself replaces the one caught. The second
  re-raises.
\<close>

definition call_api_function ::
  "env \<Rightarrow> wrapper \<Rightarrow> pyval list \<Rightarrow> sink \<Rightarrow> sink \<Rightarrow> (string \<rightharpoonup> pyval) \<Rightarrow> io_event list \<Rightarrow> outcome"
  where
  "call_api_function env self args api_limits status kwargs log =
     (let r = call_api_function_try env self args api_limits status kwargs log
      in case returned r of
           Inr payload \<Rightarrow> r
         | Inl e \<Rightarrow>
             if is_ProductInfoApiException e then
               (case store_api_statuscode (int_max_str_digits env) (exception_status e)
                       (status_after r) of
                  (Inl e', status1) \<Rightarrow> r\<lparr>returned := Inl e', status_after := status1\<rparr>
                | (Inr u, status1) \<Rightarrow> r\<lparr>status_after := status1\<rparr>)
             else r)"

subsection \<open>\<^verbatim>\<open>DigikeyApi\<close>\<close>

record DigikeyApi =
  client_id :: "string option"
  client_secret :: "string option"
  storage_path :: string
  client_sandbox :: bool

definition DigikeyApi_init :: "string option \<Rightarrow> string option \<Rightarrow> string \<Rightarrow> bool \<Rightarrow> DigikeyApi" where
  "DigikeyApi_init cid csecret spath sbox =
     \<lparr>client_id = cid, client_secret = csecret, storage_path = spath, client_sandbox = sbox\<rparr>"

text \<open>The \<^verbatim>\<open>isinstance\<close> tests of the assertions; \<^verbatim>\<open>bool\<close> is a subclass of \<^verbatim>\<open>int\<close>.\<close>

fun is_instance :: "pyval \<Rightarrow> string \<Rightarrow> bool" where
  "is_instance (PyObj c r) cls = (c = cls)"
| "is_instance v cls = False"

fun is_str :: "pyval \<Rightarrow> bool" where
  "is_str (PyStr s) = True"
| "is_str v = False"

fun is_int :: "pyval \<Rightarrow> bool" where
  "is_int (PyInt n) = True"
| "is_int (PyBool b) = True"
| "is_int v = False"

definition raised :: "py_exception \<Rightarrow> sink \<Rightarrow> sink \<Rightarrow> io_event list \<Rightarrow> outcome" where
  "raised e api_limits status log =
     \<lparr>returned = Inl e, api_limits_after = api_limits, status_after = status, io_after = log\<rparr>"

text \<open>
  Each public operation takes the object and returns, with the outcome of the call, the
  object as it is afterwards. The wrapper is constructed first; the assertions on the
  arguments come after it.
\<close>

definition keyword_search ::
  "env \<Rightarrow> DigikeyApi \<Rightarrow> pyval \<Rightarrow> sink \<Rightarrow> sink \<Rightarrow> io_event list \<Rightarrow>
   outcome \<times> DigikeyApi" where
  "keyword_search env self body api_limits status log =
     (case DigikeyApiWrapper_init env ''keyword_search_with_http_info'' ProductInformation
             (client_id self) (client_secret self) (storage_path self) (client_sandbox self) log of
        (Inl e, log1) \<Rightarrow> (raised e api_limits status log1, self)
      | (Inr client, log1) \<Rightarrow>
          if \<not> (is_instance body ''KeywordRequest'') then
            (raised AssertionError api_limits status log1, self)
          else
            (call_api_function env client [] api_limits status
               ([''body'' \<mapsto> body]) log1,
             self))"

definition product_details ::
  "env \<Rightarrow> DigikeyApi \<Rightarrow> pyval \<Rightarrow> sink \<Rightarrow> sink \<Rightarrow> io_event list \<Rightarrow>
   outcome \<times> DigikeyApi" where
  "product_details env self digikey_part_number api_limits status log =
     (case DigikeyApiWrapper_init env ''product_details_with_http_info'' ProductInformation
             (client_id self) (client_secret self) (storage_path self) (client_sandbox self) log of
        (Inl e, log1) \<Rightarrow> (raised e api_limits status log1, self)
      | (Inr client, log1) \<Rightarrow>
          if \<not> (is_str digikey_part_number) then
            (raised AssertionError api_limits status log1, self)
          else
            (call_api_function env client [digikey_part_number] api_limits status
               Map.empty log1,
             self))"

definition digi_reel_pricing ::
  "env \<Rightarrow> DigikeyApi \<Rightarrow> pyval \<Rightarrow> pyval \<Rightarrow> sink \<Rightarrow> sink \<Rightarrow> io_event list \<Rightarrow>
   outcome \<times> DigikeyApi" where
  "digi_reel_pricing env self digikey_part_number quantity api_limits status log =
     (case DigikeyApiWrapper_init env ''digi_reel_pricing_with_http_info'' ProductInformation
             (client_id self) (client_secret self) (storage_path self) (client_sandbox self) log of
        (Inl e, log1) \<Rightarrow> (raised e api_limits status log1, self)
      | (Inr client, log1) \<Rightarrow>
          if \<not> (is_str digikey_part_number \<and> is_int quantity) then
            (raised AssertionError api_limits status log1, self)
          else
            (call_api_function env client [digikey_part_number, quantity] api_limits status
               Map.empty log1,
             self))"

definition suggested_parts ::
  "env \<Rightarrow> DigikeyApi \<Rightarrow> pyval \<Rightarrow> sink \<Rightarrow> sink \<Rightarrow> io_event list \<Rightarrow>
   outcome \<times> DigikeyApi" where
  "suggested_parts env self digikey_part_number api_limits status log =
     (case DigikeyApiWrapper_init env ''suggested_parts_with_http_info'' ProductInformation
             (client_id self) (client_secret self) (storage_path self) (client_sandbox self) log of
        (Inl e, log1) \<Rightarrow> (raised e api_limits status log1, self)
      | (Inr client, log1) \<Rightarrow>
          if \<not> (is_str digikey_part_number) then
            (raised AssertionError api_limits status log1, self)
          else
            (call_api_function env client [digikey_part_number] api_limits status
               Map.empty log1,
             self))"

definition status_salesorder_id ::
  "env \<Rightarrow> DigikeyApi \<Rightarrow> pyval \<Rightarrow> sink \<Rightarrow> sink \<Rightarrow> io_event list \<Rightarrow>
   outcome \<times> DigikeyApi" where
  "status_salesorder_id env self sales_order_id api_limits status log =
     (case DigikeyApiWrapper_init env ''order_status_with_http_info'' OrderSupport
             (client_id self) (client_secret self) (storage_path self) (client_sandbox self) log of
        (Inl e, log1) \<Rightarrow> (raised e api_limits status log1, self)
      | (Inr client, log1) \<Rightarrow>
          if \<not> (is_str sales_order_id) then
            (raised AssertionError api_limits status log1, self)
          else
            (call_api_function env client [sales_order_id] api_limits status
               Map.empty log1,
             self))"

definition salesorder_history ::
  "env \<Rightarrow> DigikeyApi \<Rightarrow> pyval \<Rightarrow> pyval \<Rightarrow> sink \<Rightarrow> sink \<Rightarrow> io_event list \<Rightarrow>
   outcome \<times> DigikeyApi" where
  "salesorder_history env self start_date end_date api_limits status log =
     (case DigikeyApiWrapper_init env ''order_history_with_http_info'' OrderSupport
             (client_id self) (client_secret self) (storage_path self) (client_sandbox self) log of
        (Inl e, log1) \<Rightarrow> (raised e api_limits status log1, self)
      | (Inr client, log1) \<Rightarrow>
          if \<not> (is_str start_date \<and> is_str end_date) then
            (raised AssertionError api_limits status log1, self)
          else
            (call_api_function env client [] api_limits status
               ([''start_date'' \<mapsto> start_date, ''end_date'' \<mapsto> end_date]) log1,
             self))"

definition batch_product_details ::
  "env \<Rightarrow> DigikeyApi \<Rightarrow> pyval \<Rightarrow> sink \<Rightarrow> sink \<Rightarrow> io_event list \<Rightarrow>
   outcome \<times> DigikeyApi" where
  "batch_product_details env self body api_limits status log =
     (case DigikeyApiWrapper_init env ''batch_product_details_with_http_info'' BatchProductDetails
             (client_id self) (client_secret self) (storage_path self) (client_sandbox self) log of
        (Inl e, log1) \<Rightarrow> (raised e api_limits status log1, self)
      | (Inr client, log1) \<Rightarrow>
          if \<not> (is_instance body ''BatchProductDetailsRequest'') then
            (raised AssertionError api_limits status log1, self)
          else
            (call_api_function env client [] api_limits status
               ([''body'' \<mapsto> body]) log1,
             self))"

subsection \<open>A test double for the collaborators\<close>

text \<open>
  New configurations with no API key, a token handler that always issues the same token
  after one exchange with the authorization endpoint, the default limit on the digits of
  \<^verbatim>\<open>int\<close>, and clients in which
  \<^verbatim>\<open>product_details_with_http_info\<close> knows one part and answers 404 through the
  \<^verbatim>\<open>ApiException\<close> of its own package for any other,
  \<^verbatim>\<open>order_status_with_http_info\<close> always answers 404 in the same way, and
  \<^verbatim>\<open>keyword_search_with_http_info\<close> answers 200 with no rate-limit headers.
\<close>

definition sample_token :: token where
  "sample_token = \<lparr>tok_access_token = ''t0k3n'', tok_authorization = ''Bearer t0k3n''\<rparr>"

definition sample_product_details :: "py_module \<Rightarrow> operation" where
  "sample_product_details m pos kw =
     (if pos = [PyStr ''296-24647-1-ND'', PyStr ''id'']
      then Inr (PyObj ''ProductDetails'' ''296-24647-1-ND'', 200,
                [''X-RateLimit-Limit'' \<mapsto> ''120'', ''X-RateLimit-Remaining'' \<mapsto> ''119''])
      else Inl (ApiException m (PyInt 404)))"

definition sample_order_status :: "py_module \<Rightarrow> operation" where
  "sample_order_status m pos kw = Inl (ApiException m (PyInt 404))"

definition sample_keyword_search :: operation where
  "sample_keyword_search pos kw = Inr (PyObj ''KeywordResponse'' ''raspberry pi'', 200, Map.empty)"

definition sample_env :: env where
  "sample_env =
     \<lparr>new_configuration =
        (\<lambda>c. \<lparr>config_class = c, api_key = Map.empty, host = [], access_token = []\<rparr>),
      get_access_token = (\<lambda>request. (Inr sample_token, [TokenExchange request])),
      getattr_api = (\<lambda>inst name.
        if name = ''product_details_with_http_info''
        then Some (sample_product_details (client_module inst))
        else if name = ''order_status_with_http_info''
        then Some (sample_order_status (client_module inst))
        else if name = ''keyword_search_with_http_info''
        then Some sample_keyword_search
        else None),
      int_max_str_digits = 4300\<rparr>"


definition sample_api :: DigikeyApi where
  "sample_api = DigikeyApi_init (Some ''id'') (Some ''secret'') ''/tmp/'' False"

definition sample_request :: token_handler_args where
  "sample_request =
     \<lparr>a_id = ''id'', a_secret = ''secret'', a_token_storage_path = ''/tmp/'', version = 3,
      a_sandbox = False\<rparr>"

text \<open>The wrapper that \<^verbatim>\<open>__init__\<close> builds for \<open>sample_api\<close> in \<open>sample_env\<close>.\<close>

definition sample_wrapper ::
  "string \<Rightarrow> py_module \<Rightarrow> api_class \<Rightarrow> config_class \<Rightarrow> string \<Rightarrow> wrapper" where
  "sample_wrapper fname module cls cfg h =
     \<lparr>sandbox = False,
      digikeyApiToken = sample_token,
      api_instance =
        \<lparr>api_class = cls, client_module = module,
         client_configuration =
           \<lparr>config_class = cfg,
            api_key = [''X-DIGIKEY-Client-Id'' \<mapsto> PyStr ''id''],
            host = h,
            access_token = ''t0k3n''\<rparr>\<rparr>,
      authorization = ''Bearer t0k3n'',
      x_digikey_client_id = ''id'',
      wrapped_function_name = fname\<rparr>"

section \<open>Properties\<close>

subsection \<open>Conversions\<close>

lemma py_int_120: "py_int limit ''120'' = Some 120"
  by (simp add: py_int_def strip_def is_space_def digit_of_def str_digits_check_threshold_def)

lemma py_int_119: "py_int limit ''119'' = Some 119"
  by (simp add: py_int_def strip_def is_space_def digit_of_def str_digits_check_threshold_def)

lemma py_int_abc: "py_int limit ''abc'' = None"
  by (simp add: py_int_def strip_def is_space_def digit_of_def str_digits_check_threshold_def)

text \<open>White space of both kinds is stripped, at both ends only; a sign and single
  underscores are read.\<close>

lemma py_int_padded: "py_int limit (CHR 0xA0 # ''120'' @ [CHR 0x85, CHR 0x0A]) = Some 120"
  by (simp add: py_int_def strip_def is_space_def digit_of_def str_digits_check_threshold_def)

lemma py_int_signed: "py_int limit '' -1_000'' = Some (- 1000)"
  by (simp add: py_int_def strip_def is_space_def digit_of_def str_digits_check_threshold_def)

lemma py_int_rejected:
  "py_int limit [] = None"
  "py_int limit ''+'' = None"
  "py_int limit ''+ 1'' = None"
  "py_int limit ''1 2'' = None"
  "py_int limit ''1__0'' = None"
  "py_int limit ''_1'' = None"
  "py_int limit ''1_'' = None"
  "py_int limit (CHR 0x1C # ''1'') = None"
  "py_int limit ''1.0'' = None"
  by (simp_all add: py_int_def strip_def is_space_def digit_of_def str_digits_check_threshold_def)

text \<open>A literal of more digits than the limit is rejected, once it has more than 640.\<close>

lemma py_int_over_limit:
  assumes "0 < limit" and "limit < n" and "640 < n"
  shows "py_int limit (replicate n (CHR ''7'')) = None"
proof -
  from assms obtain m where n: "n = Suc m"
    by (cases n) simp_all
  have sp: "\<not> is_space (CHR ''7'')"
    by (simp add: is_space_def)
  have "dropWhile is_space (replicate n (CHR ''7'')) = replicate n (CHR ''7'')"
    using sp by (simp add: n)
  then have st: "strip (replicate n (CHR ''7'')) = CHR ''7'' # replicate m (CHR ''7'')"
    using sp by (simp add: strip_def n flip: replicate_append_same)
  show ?thesis
    unfolding py_int_def st
    using assms
    by (simp add: n str_digits_check_threshold_def digit_of_def split: option.splits)
qed

subsection \<open>The two recording steps\<close>

lemma remaining_requests_NotDict:
  "remaining_requests limit h (NotDict v) = (Inr (), NotDict v)"
  by (simp add: remaining_requests_def remaining_requests_try_def split: option.splits)

lemma remaining_requests_Dict_parsed:
  "h ''X-RateLimit-Limit'' = Some a \<Longrightarrow> h ''X-RateLimit-Remaining'' = Some b \<Longrightarrow>
   py_int limit a = Some l \<Longrightarrow> py_int limit b = Some r \<Longrightarrow>
   remaining_requests limit h (Dict d) =
     (Inr (), Dict (d(''api_requests_limit'' \<mapsto> PyInt l, ''api_requests_remaining'' \<mapsto> PyInt r)))"
  by (simp add: remaining_requests_def remaining_requests_try_def)

lemma remaining_requests_Dict_unknown:
  "h ''X-RateLimit-Limit'' = None \<or> h ''X-RateLimit-Remaining'' = None \<or>
   (\<exists>a. h ''X-RateLimit-Limit'' = Some a \<and> py_int limit a = None) \<or>
   (\<exists>b. h ''X-RateLimit-Remaining'' = Some b \<and> py_int limit b = None) \<Longrightarrow>
   remaining_requests limit h (Dict d) =
     (Inr (), Dict (d(''api_requests_limit'' \<mapsto> PyNone, ''api_requests_remaining'' \<mapsto> PyNone)))"
  by (auto simp: remaining_requests_def remaining_requests_try_def split: option.splits)

text \<open>With a header of strings, nothing escapes the \<^verbatim>\<open>except\<close> clause.\<close>

lemma remaining_requests_returns: "fst (remaining_requests limit h s) = Inr ()"
  by (cases s) (auto simp: remaining_requests_def remaining_requests_try_def split: option.splits)

lemma store_api_statuscode_NotDict:
  "store_api_statuscode limit c (NotDict v) = (Inr (), NotDict v)"
  by (simp add: store_api_statuscode_def)

lemma store_api_statuscode_PyInt:
  "store_api_statuscode limit (PyInt n) s =
     (Inr (), case s of Dict d \<Rightarrow> Dict (d(''code'' \<mapsto> PyInt n)) | NotDict v \<Rightarrow> NotDict v)"
  by (simp add: store_api_statuscode_def split: sink.splits)

subsection \<open>The two ways out of \<^verbatim>\<open>call_api_function\<close>\<close>

lemma call_api_function_try_returns:
  assumes "getattr_api env (api_instance self) (wrapped_function_name self) = Some func"
    and "kwargs ''authorization'' = None"
    and "func (args @ [PyStr (x_digikey_client_id self)])
           (kwargs(''authorization'' \<mapsto> PyStr (authorization self))) = Inr (payload, sc, hdrs)"
  shows "call_api_function_try env self args api_limits status kwargs log =
           \<lparr>returned = Inr payload,
            api_limits_after = snd (remaining_requests (int_max_str_digits env) hdrs api_limits),
            status_after =
              (case status of Dict d \<Rightarrow> Dict (d(''code'' \<mapsto> PyInt sc)) | NotDict v \<Rightarrow> NotDict v),
            io_after = log @ [ApiCall (wrapped_function_name self)
                               (args @ [PyStr (x_digikey_client_id self)])
                               (kwargs(''authorization'' \<mapsto> PyStr (authorization self)))]\<rparr>"
proof -
  obtain u s where rr: "remaining_requests (int_max_str_digits env) hdrs api_limits = (u, s)"
    by (cases "remaining_requests (int_max_str_digits env) hdrs api_limits")
  with remaining_requests_returns [of "int_max_str_digits env" hdrs api_limits]
  have u: "u = Inr ()" by simp
  show ?thesis
    using assms rr u
    by (simp add: call_api_function_try_def Let_def store_api_statuscode_PyInt)
qed

lemma call_api_function_returns:
  assumes "getattr_api env (api_instance self) (wrapped_function_name self) = Some func"
    and "kwargs ''authorization'' = None"
    and "func (args @ [PyStr (x_digikey_client_id self)])
           (kwargs(''authorization'' \<mapsto> PyStr (authorization self))) = Inr (payload, sc, hdrs)"
  shows "call_api_function env self args api_limits status kwargs log =
           \<lparr>returned = Inr payload,
            api_limits_after = snd (remaining_requests (int_max_str_digits env) hdrs api_limits),
            status_after =
              (case status of Dict d \<Rightarrow> Dict (d(''code'' \<mapsto> PyInt sc)) | NotDict v \<Rightarrow> NotDict v),
            io_after = log @ [ApiCall (wrapped_function_name self)
                               (args @ [PyStr (x_digikey_client_id self)])
                               (kwargs(''authorization'' \<mapsto> PyStr (authorization self)))]\<rparr>"
  by (simp add: call_api_function_def call_api_function_try_returns [OF assms])

lemma call_api_function_raises:
  assumes "getattr_api env (api_instance self) (wrapped_function_name self) = Some func"
    and "kwargs ''authorization'' = None"
    and "func (args @ [PyStr (x_digikey_client_id self)])
           (kwargs(''authorization'' \<mapsto> PyStr (authorization self))) = Inl e"
  shows "call_api_function env self args api_limits status kwargs log =
           \<lparr>returned =
              (if is_ProductInfoApiException e then
                 (case fst (store_api_statuscode (int_max_str_digits env)
                              (exception_status e) status) of
                    Inl e' \<Rightarrow> Inl e' | Inr u \<Rightarrow> Inl e)
               else Inl e),
            api_limits_after = api_limits,
            status_after =
              (if is_ProductInfoApiException e
               then snd (store_api_statuscode (int_max_str_digits env)
                           (exception_status e) status)
               else status),
            io_after = log @ [ApiCall (wrapped_function_name self)
                               (args @ [PyStr (x_digikey_client_id self)])
                               (kwargs(''authorization'' \<mapsto> PyStr (authorization self)))]\<rparr>"
  using assms
  by (cases "store_api_statuscode (int_max_str_digits env) (exception_status e) status")
     (auto simp: call_api_function_def call_api_function_try_def Let_def split: sum.splits)

subsection \<open>The test double at work\<close>

lemma init_product_details:
  "DigikeyApiWrapper_init sample_env ''product_details_with_http_info'' ProductInformation
     (Some ''id'') (Some ''secret'') ''/tmp/'' False [] =
   (Inr (sample_wrapper ''product_details_with_http_info'' ProductInformation ProductSearchApi
           ProductInfoConfiguration ''https://api.digikey.com/products/v4''),
    [TokenExchange sample_request])"
  by (simp add: DigikeyApiWrapper_init_def sample_env_def sample_token_def sample_wrapper_def
      sample_request_def)

lemma init_order_status:
  "DigikeyApiWrapper_init sample_env ''order_status_with_http_info'' OrderSupport
     (Some ''id'') (Some ''secret'') ''/tmp/'' False [] =
   (Inr (sample_wrapper ''order_status_with_http_info'' OrderSupport OrderDetailsApi
           OrderDetailsConfiguration ''https://api.digikey.com/OrderDetails/v4''),
    [TokenExchange sample_request])"
  by (simp add: DigikeyApiWrapper_init_def sample_env_def sample_token_def sample_wrapper_def
      sample_request_def)

lemma call_order_status:
  "call_api_function sample_env
     (sample_wrapper ''order_status_with_http_info'' OrderSupport OrderDetailsApi
        OrderDetailsConfiguration ''https://api.digikey.com/OrderDetails/v4'')
     [PyStr ''12345''] (NotDict PyNone) (Dict Map.empty) Map.empty
     [TokenExchange sample_request] =
   \<lparr>returned = Inl (ApiException OrderSupport (PyInt 404)),
    api_limits_after = NotDict PyNone,
    status_after = Dict Map.empty,
    io_after = [TokenExchange sample_request,
                ApiCall ''order_status_with_http_info'' [PyStr ''12345'', PyStr ''id'']
                  [''authorization'' \<mapsto> PyStr ''Bearer t0k3n'']]\<rparr>"
  by (simp add: call_api_function_def call_api_function_try_def sample_wrapper_def sample_env_def
      sample_order_status_def)

lemma call_product_details_missing:
  "call_api_function sample_env
     (sample_wrapper ''product_details_with_http_info'' ProductInformation ProductSearchApi
        ProductInfoConfiguration ''https://api.digikey.com/products/v4'')
     [PyStr ''no-such-part''] (NotDict PyNone) (Dict Map.empty) Map.empty
     [TokenExchange sample_request] =
   \<lparr>returned = Inl (ApiException ProductInformation (PyInt 404)),
    api_limits_after = NotDict PyNone,
    status_after = Dict [''code'' \<mapsto> PyInt 404],
    io_after = [TokenExchange sample_request,
                ApiCall ''product_details_with_http_info'' [PyStr ''no-such-part'', PyStr ''id'']
                  [''authorization'' \<mapsto> PyStr ''Bearer t0k3n'']]\<rparr>"
  by (simp add: call_api_function_def call_api_function_try_def sample_wrapper_def sample_env_def
      sample_product_details_def store_api_statuscode_def)

section \<open>The properties of the specification\<close>

subsection \<open>C1: the status of an API exception\<close>

text \<open>
  The first \<^verbatim>\<open>except\<close> clause names one class, the \<^verbatim>\<open>ApiException\<close> of the product
  information package. For that package the status is stored in a dictionary sink and the
  exception caught is the one raised again:
\<close>

lemma call_api_function_ProductInfoApiException:
  assumes "getattr_api env (api_instance self) (wrapped_function_name self) = Some func"
    and "kwargs ''authorization'' = None"
    and "func (args @ [PyStr (x_digikey_client_id self)])
           (kwargs(''authorization'' \<mapsto> PyStr (authorization self))) =
         Inl (ApiException ProductInformation (PyInt code))"
  shows "returned (call_api_function env self args api_limits (Dict d) kwargs log) =
           Inl (ApiException ProductInformation (PyInt code))
       \<and> status_after (call_api_function env self args api_limits (Dict d) kwargs log) =
           Dict (d(''code'' \<mapsto> PyInt code))"
  by (simp add: call_api_function_raises [OF assms] store_api_statuscode_PyInt)

lemma product_details_404:
  "product_details sample_env sample_api (PyStr ''no-such-part'') (NotDict PyNone)
     (Dict Map.empty) [] =
     (\<lparr>returned = Inl (ApiException ProductInformation (PyInt 404)),
       api_limits_after = NotDict PyNone,
       status_after = Dict [''code'' \<mapsto> PyInt 404],
       io_after = [TokenExchange sample_request,
                   ApiCall ''product_details_with_http_info'' [PyStr ''no-such-part'', PyStr ''id'']
                     [''authorization'' \<mapsto> PyStr ''Bearer t0k3n'']]\<rparr>,
      sample_api)"
  by (simp add: product_details_def sample_api_def DigikeyApi_init_def init_product_details
      call_product_details_missing)

text \<open>
  An \<^verbatim>\<open>ApiException\<close> of any other package is raised again as it is, and the status
  sink is left as it was:
\<close>

lemma call_api_function_other_ApiException:
  assumes "getattr_api env (api_instance self) (wrapped_function_name self) = Some func"
    and "kwargs ''authorization'' = None"
    and "func (args @ [PyStr (x_digikey_client_id self)])
           (kwargs(''authorization'' \<mapsto> PyStr (authorization self))) =
         Inl (ApiException m s)"
    and "m \<noteq> ProductInformation"
  shows "returned (call_api_function env self args api_limits status kwargs log) =
           Inl (ApiException m s)
       \<and> status_after (call_api_function env self args api_limits status kwargs log) = status"
proof -
  from assms(4) have "\<not> is_ProductInfoApiException (ApiException m s)"
    by (cases m) simp_all
  then show ?thesis
    by (simp add: call_api_function_raises [OF assms(1-3)])
qed

text \<open>
  C1. Claim: for every API family, when the underlying operation raises an API-level
  exception that carries a status code, the wrapper writes that code into the caller's
  dictionary \<^verbatim>\<open>status\<close> and raises the same exception again; a 404 leaves the sink as
  \<^verbatim>\<open>{code: 404}\<close>.
  The code does not do so for the order support family: the \<^verbatim>\<open>ApiException\<close> of that
  package is not a \<^verbatim>\<open>ProductInfoApiException\<close>, so it reaches the second \<^verbatim>\<open>except\<close>
  clause, which raises it again and stores nothing. Here \<^verbatim>\<open>status_salesorder_id\<close> is
  called with an empty dictionary as \<^verbatim>\<open>status\<close>, the operation answers 404, and the
  dictionary is still empty afterwards.
\<close>

theorem C1_order_support_status_not_stored:
  "status_salesorder_id sample_env sample_api (PyStr ''12345'') (NotDict PyNone)
     (Dict Map.empty) [] =
     (\<lparr>returned = Inl (ApiException OrderSupport (PyInt 404)),
       api_limits_after = NotDict PyNone,
       status_after = Dict Map.empty,
       io_after = [TokenExchange sample_request,
                   ApiCall ''order_status_with_http_info'' [PyStr ''12345'', PyStr ''id'']
                     [''authorization'' \<mapsto> PyStr ''Bearer t0k3n'']]\<rparr>,
      sample_api)"
  by (simp add: status_salesorder_id_def sample_api_def DigikeyApi_init_def init_order_status
      call_order_status)

subsection \<open>C2: the payload, the status and the forwarded arguments\<close>

lemma sample_getattr_product_details:
  "getattr_api sample_env
     (api_instance (sample_wrapper ''product_details_with_http_info'' ProductInformation
        ProductSearchApi ProductInfoConfiguration ''https://api.digikey.com/products/v4''))
     (wrapped_function_name (sample_wrapper ''product_details_with_http_info'' ProductInformation
        ProductSearchApi ProductInfoConfiguration ''https://api.digikey.com/products/v4'')) =
   Some (sample_product_details ProductInformation)"
  by (simp add: sample_env_def sample_wrapper_def)

lemma sample_product_details_found:
  "sample_product_details ProductInformation
     ([PyStr ''296-24647-1-ND''] @
      [PyStr (x_digikey_client_id (sample_wrapper ''product_details_with_http_info''
         ProductInformation ProductSearchApi ProductInfoConfiguration
         ''https://api.digikey.com/products/v4''))])
     (Map.empty(''authorization'' \<mapsto>
        PyStr (authorization (sample_wrapper ''product_details_with_http_info''
          ProductInformation ProductSearchApi ProductInfoConfiguration
          ''https://api.digikey.com/products/v4'')))) =
   Inr (PyObj ''ProductDetails'' ''296-24647-1-ND'', 200,
        [''X-RateLimit-Limit'' \<mapsto> ''120'', ''X-RateLimit-Remaining'' \<mapsto> ''119''])"
  by (simp add: sample_product_details_def sample_wrapper_def)

lemma no_authorization_keyword: "(Map.empty :: string \<rightharpoonup> pyval) ''authorization'' = None"
  by simp

text \<open>
  C2. When the named operation, called with the caller's positional arguments followed by
  the client id, and with the caller's keyword arguments plus \<^verbatim>\<open>authorization\<close>, returns
  \<^verbatim>\<open>(payload, status_code, headers)\<close>, then \<^verbatim>\<open>call_api_function\<close> returns the payload, a
  dictionary \<^verbatim>\<open>status\<close> receives \<^verbatim>\<open>code = status_code\<close>, and the one call made is the
  call with exactly those arguments. (The operation is entered only if the caller's
  keywords do not name \<^verbatim>\<open>authorization\<close> themselves.)
\<close>

theorem C2_payload_and_status:
  assumes "getattr_api env (api_instance self) (wrapped_function_name self) = Some func"
    and "kwargs ''authorization'' = None"
    and "func (args @ [PyStr (x_digikey_client_id self)])
           (kwargs(''authorization'' \<mapsto> PyStr (authorization self))) =
         Inr (payload, status_code, headers)"
  shows "returned (call_api_function env self args api_limits status kwargs log) = Inr payload
       \<and> status_after (call_api_function env self args api_limits (Dict d) kwargs log) =
           Dict (d(''code'' \<mapsto> PyInt status_code))
       \<and> io_after (call_api_function env self args api_limits status kwargs log) =
           log @ [ApiCall (wrapped_function_name self)
                    (args @ [PyStr (x_digikey_client_id self)])
                    (kwargs(''authorization'' \<mapsto> PyStr (authorization self)))]"
  by (simp add: call_api_function_returns [OF assms])

text \<open>C2 at the part number the test double knows, with an empty dictionary as \<^verbatim>\<open>status\<close>.\<close>

theorem C2_witness:
  "returned (call_api_function sample_env
       (sample_wrapper ''product_details_with_http_info'' ProductInformation ProductSearchApi
          ProductInfoConfiguration ''https://api.digikey.com/products/v4'')
       [PyStr ''296-24647-1-ND''] (NotDict PyNone) (Dict Map.empty) Map.empty []) =
     Inr (PyObj ''ProductDetails'' ''296-24647-1-ND'')
   \<and> status_after (call_api_function sample_env
       (sample_wrapper ''product_details_with_http_info'' ProductInformation ProductSearchApi
          ProductInfoConfiguration ''https://api.digikey.com/products/v4'')
       [PyStr ''296-24647-1-ND''] (NotDict PyNone) (Dict Map.empty) Map.empty []) =
     Dict [''code'' \<mapsto> PyInt 200]
   \<and> io_after (call_api_function sample_env
       (sample_wrapper ''product_details_with_http_info'' ProductInformation ProductSearchApi
          ProductInfoConfiguration ''https://api.digikey.com/products/v4'')
       [PyStr ''296-24647-1-ND''] (NotDict PyNone) (Dict Map.empty) Map.empty []) =
     [ApiCall ''product_details_with_http_info'' [PyStr ''296-24647-1-ND'', PyStr ''id'']
        [''authorization'' \<mapsto> PyStr ''Bearer t0k3n'']]"
  using C2_payload_and_status [OF sample_getattr_product_details no_authorization_keyword
      sample_product_details_found, of "NotDict PyNone" "Dict Map.empty" "[]" Map.empty]
  by (simp add: sample_wrapper_def)

subsection \<open>C3: rate limits that parse\<close>

lemma sample_headers:
  "[''X-RateLimit-Limit'' \<mapsto> ''120'', ''X-RateLimit-Remaining'' \<mapsto> ''119''] ''X-RateLimit-Limit'' =
     Some ''120''"
  "[''X-RateLimit-Limit'' \<mapsto> ''120'', ''X-RateLimit-Remaining'' \<mapsto> ''119'']
     ''X-RateLimit-Remaining'' = Some ''119''"
  by simp_all

text \<open>
  A value padded with U+00A0 is one that \<^verbatim>\<open>int\<close> accepts, and is recorded:
\<close>

lemma remaining_requests_padded:
  "remaining_requests limit
     [''X-RateLimit-Limit'' \<mapsto> CHR 0xA0 # ''120'' @ [CHR 0x85, CHR 0x0A],
      ''X-RateLimit-Remaining'' \<mapsto> ''119'']
     (Dict Map.empty) =
   (Inr (), Dict [''api_requests_limit'' \<mapsto> PyInt 120, ''api_requests_remaining'' \<mapsto> PyInt 119])"
  using py_int_padded [of limit] py_int_119 [of limit]
  by (simp add: remaining_requests_def remaining_requests_try_def)

text \<open>
  C3. When the response headers hold \<^verbatim>\<open>X-RateLimit-Limit\<close> and
  \<^verbatim>\<open>X-RateLimit-Remaining\<close> and \<^verbatim>\<open>int\<close> accepts both values, a successful call leaves
  the two integers in a dictionary \<^verbatim>\<open>api_limits\<close> under \<^verbatim>\<open>api_requests_limit\<close> and
  \<^verbatim>\<open>api_requests_remaining\<close>, and returns the payload.
\<close>

theorem C3_rate_limits_recorded:
  assumes "getattr_api env (api_instance self) (wrapped_function_name self) = Some func"
    and "kwargs ''authorization'' = None"
    and "func (args @ [PyStr (x_digikey_client_id self)])
           (kwargs(''authorization'' \<mapsto> PyStr (authorization self))) =
         Inr (payload, status_code, headers)"
    and "headers ''X-RateLimit-Limit'' = Some rate_limit"
    and "headers ''X-RateLimit-Remaining'' = Some rate_limit_rem"
    and "py_int (int_max_str_digits env) rate_limit = Some l"
    and "py_int (int_max_str_digits env) rate_limit_rem = Some r"
  shows "api_limits_after (call_api_function env self args (Dict d) status kwargs log) =
           Dict (d(''api_requests_limit'' \<mapsto> PyInt l, ''api_requests_remaining'' \<mapsto> PyInt r))
       \<and> returned (call_api_function env self args (Dict d) status kwargs log) = Inr payload"
  using assms(4-7)
  by (simp add: call_api_function_returns [OF assms(1-3)] remaining_requests_Dict_parsed)

text \<open>
  C3 at the headers \<^verbatim>\<open>{"X-RateLimit-Limit": "120", "X-RateLimit-Remaining": "119"}\<close>
  and an empty dictionary: it becomes
  \<^verbatim>\<open>{api_requests_limit: 120, api_requests_remaining: 119}\<close>.
\<close>

theorem C3_witness:
  "api_limits_after (call_api_function sample_env
       (sample_wrapper ''product_details_with_http_info'' ProductInformation ProductSearchApi
          ProductInfoConfiguration ''https://api.digikey.com/products/v4'')
       [PyStr ''296-24647-1-ND''] (Dict Map.empty) (NotDict PyNone) Map.empty []) =
     Dict [''api_requests_limit'' \<mapsto> PyInt 120, ''api_requests_remaining'' \<mapsto> PyInt 119]
   \<and> returned (call_api_function sample_env
       (sample_wrapper ''product_details_with_http_info'' ProductInformation ProductSearchApi
          ProductInfoConfiguration ''https://api.digikey.com/products/v4'')
       [PyStr ''296-24647-1-ND''] (Dict Map.empty) (NotDict PyNone) Map.empty []) =
     Inr (PyObj ''ProductDetails'' ''296-24647-1-ND'')"
  by (rule C3_rate_limits_recorded [OF sample_getattr_product_details no_authorization_keyword
      sample_product_details_found sample_headers py_int_120 py_int_119])

subsection \<open>C4: rate limits that are missing or malformed\<close>

lemma sample_getattr_keyword_search:
  "getattr_api sample_env
     (api_instance (sample_wrapper ''keyword_search_with_http_info'' ProductInformation
        ProductSearchApi ProductInfoConfiguration ''https://api.digikey.com/products/v4''))
     (wrapped_function_name (sample_wrapper ''keyword_search_with_http_info'' ProductInformation
        ProductSearchApi ProductInfoConfiguration ''https://api.digikey.com/products/v4'')) =
   Some sample_keyword_search"
  by (simp add: sample_env_def sample_wrapper_def)

lemma sample_keyword_search_found:
  "sample_keyword_search
     ([] @ [PyStr (x_digikey_client_id (sample_wrapper ''keyword_search_with_http_info''
         ProductInformation ProductSearchApi ProductInfoConfiguration
         ''https://api.digikey.com/products/v4''))])
     ([''body'' \<mapsto> PyObj ''KeywordRequest'' ''raspberry pi'']
        (''authorization'' \<mapsto>
           PyStr (authorization (sample_wrapper ''keyword_search_with_http_info''
             ProductInformation ProductSearchApi ProductInfoConfiguration
             ''https://api.digikey.com/products/v4'')))) =
   Inr (PyObj ''KeywordResponse'' ''raspberry pi'', 200, Map.empty)"
  by (simp add: sample_keyword_search_def)

lemma body_only: "[''body'' \<mapsto> PyObj ''KeywordRequest'' ''raspberry pi''] ''authorization'' = None"
  by simp

lemma no_rate_limit_headers:
  "(Map.empty :: header) ''X-RateLimit-Limit'' = None \<or>
   (Map.empty :: header) ''X-RateLimit-Remaining'' = None \<or>
   (\<exists>a. (Map.empty :: header) ''X-RateLimit-Limit'' = Some a \<and> py_int limit a = None) \<or>
   (\<exists>b. (Map.empty :: header) ''X-RateLimit-Remaining'' = Some b \<and> py_int limit b = None)"
  by simp

text \<open>
  C4. When the response headers lack \<^verbatim>\<open>X-RateLimit-Limit\<close> or
  \<^verbatim>\<open>X-RateLimit-Remaining\<close>, or \<^verbatim>\<open>int\<close> rejects one of the two values, a successful
  call leaves \<^verbatim>\<open>None\<close> under both keys of a dictionary \<^verbatim>\<open>api_limits\<close>, and still
  returns the payload.
\<close>

theorem C4_rate_limits_unknown:
  assumes "getattr_api env (api_instance self) (wrapped_function_name self) = Some func"
    and "kwargs ''authorization'' = None"
    and "func (args @ [PyStr (x_digikey_client_id self)])
           (kwargs(''authorization'' \<mapsto> PyStr (authorization self))) =
         Inr (payload, status_code, headers)"
    and "headers ''X-RateLimit-Limit'' = None \<or> headers ''X-RateLimit-Remaining'' = None \<or>
         (\<exists>a. headers ''X-RateLimit-Limit'' = Some a \<and>
               py_int (int_max_str_digits env) a = None) \<or>
         (\<exists>b. headers ''X-RateLimit-Remaining'' = Some b \<and>
               py_int (int_max_str_digits env) b = None)"
  shows "api_limits_after (call_api_function env self args (Dict d) status kwargs log) =
           Dict (d(''api_requests_limit'' \<mapsto> PyNone, ''api_requests_remaining'' \<mapsto> PyNone))
       \<and> returned (call_api_function env self args (Dict d) status kwargs log) = Inr payload"
  by (simp add: call_api_function_returns [OF assms(1-3)]
      remaining_requests_Dict_unknown [OF assms(4)])

text \<open>C4 at a response without headers.\<close>

theorem C4_witness:
  "api_limits_after (call_api_function sample_env
       (sample_wrapper ''keyword_search_with_http_info'' ProductInformation ProductSearchApi
          ProductInfoConfiguration ''https://api.digikey.com/products/v4'')
       [] (Dict Map.empty) (NotDict PyNone)
       [''body'' \<mapsto> PyObj ''KeywordRequest'' ''raspberry pi''] []) =
     Dict [''api_requests_limit'' \<mapsto> PyNone, ''api_requests_remaining'' \<mapsto> PyNone]
   \<and> returned (call_api_function sample_env
       (sample_wrapper ''keyword_search_with_http_info'' ProductInformation ProductSearchApi
          ProductInfoConfiguration ''https://api.digikey.com/products/v4'')
       [] (Dict Map.empty) (NotDict PyNone)
       [''body'' \<mapsto> PyObj ''KeywordRequest'' ''raspberry pi''] []) =
     Inr (PyObj ''KeywordResponse'' ''raspberry pi'')"
  by (rule C4_rate_limits_unknown [OF sample_getattr_keyword_search body_only
      sample_keyword_search_found no_rate_limit_headers])

subsection \<open>C5: the host of each family\<close>

lemma sample_env_token:
  "fst (get_access_token sample_env
     \<lparr>a_id = ''id'', a_secret = ''secret'', a_token_storage_path = ''/tmp/'', version = 3,
      a_sandbox = True\<rparr>) = Inr sample_token"
  by (simp add: sample_env_def)

text \<open>
  C5. For each of the three families, a construction that gets its token yields a client
  whose configured host is \<^verbatim>\<open>https://api.digikey.com/{segment}/v4\<close> when the sandbox flag
  is false and \<^verbatim>\<open>https://sandbox-api.digikey.com/{segment}/v4\<close> when it is true, with
  the segments \<^verbatim>\<open>products\<close>, \<^verbatim>\<open>OrderDetails\<close> and \<^verbatim>\<open>BatchSearch\<close>.
\<close>

theorem C5_hosts:
  assumes "fst (get_access_token env
             \<lparr>a_id = c, a_secret = s, a_token_storage_path = p, version = 3, a_sandbox = sb\<rparr>) =
           Inr tok"
  shows "(\<exists>w. fst (DigikeyApiWrapper_init env f ProductInformation (Some c) (Some s) p sb log) = Inr w
            \<and> host (client_configuration (api_instance w)) =
                (if sb then ''https://sandbox-api.digikey.com/products/v4''
                 else ''https://api.digikey.com/products/v4''))
       \<and> (\<exists>w. fst (DigikeyApiWrapper_init env f OrderSupport (Some c) (Some s) p sb log) = Inr w
            \<and> host (client_configuration (api_instance w)) =
                (if sb then ''https://sandbox-api.digikey.com/OrderDetails/v4''
                 else ''https://api.digikey.com/OrderDetails/v4''))
       \<and> (\<exists>w. fst (DigikeyApiWrapper_init env f BatchProductDetails (Some c) (Some s) p sb log) = Inr w
            \<and> host (client_configuration (api_instance w)) =
                (if sb then ''https://sandbox-api.digikey.com/BatchSearch/v4''
                 else ''https://api.digikey.com/BatchSearch/v4''))"
  using assms by (simp add: DigikeyApiWrapper_init_def Let_def)

text \<open>C5 in the sandbox; the production hosts are those of \<open>init_product_details\<close> and
  \<open>init_order_status\<close>.\<close>

theorem C5_witness:
  "(\<exists>w. fst (DigikeyApiWrapper_init sample_env ''product_details_with_http_info''
            ProductInformation (Some ''id'') (Some ''secret'') ''/tmp/'' True []) = Inr w
       \<and> host (client_configuration (api_instance w)) =
           ''https://sandbox-api.digikey.com/products/v4'')
 \<and> (\<exists>w. fst (DigikeyApiWrapper_init sample_env ''product_details_with_http_info''
            OrderSupport (Some ''id'') (Some ''secret'') ''/tmp/'' True []) = Inr w
       \<and> host (client_configuration (api_instance w)) =
           ''https://sandbox-api.digikey.com/OrderDetails/v4'')
 \<and> (\<exists>w. fst (DigikeyApiWrapper_init sample_env ''product_details_with_http_info''
            BatchProductDetails (Some ''id'') (Some ''secret'') ''/tmp/'' True []) = Inr w
       \<and> host (client_configuration (api_instance w)) =
           ''https://sandbox-api.digikey.com/BatchSearch/v4'')"
  using C5_hosts [OF sample_env_token, of "''product_details_with_http_info''" "[]"]
  by simp

subsection \<open>C6: missing credentials\<close>


text \<open>
  The test of line 85 is \<^verbatim>\<open>is None\<close>: two strings, empty or not, are handed to the token
  handler as they are, and for a module the constructor knows the construction fails
  exactly when the handler does, after the I/O the handler did.
\<close>

lemma init_asks_token_handler:
  assumes "module \<in> {ProductInformation, OrderSupport, BatchProductDetails}"
  shows "snd (DigikeyApiWrapper_init env f module (Some c) (Some s) p sb log) =
           log @ snd (get_access_token env
             \<lparr>a_id = c, a_secret = s, a_token_storage_path = p, version = 3, a_sandbox = sb\<rparr>)
       \<and> (fst (DigikeyApiWrapper_init env f module (Some c) (Some s) p sb log) = Inl e \<longleftrightarrow>
            fst (get_access_token env
             \<lparr>a_id = c, a_secret = s, a_token_storage_path = p, version = 3, a_sandbox = sb\<rparr>) =
            Inl e)"
  using assms
  by (auto simp: DigikeyApiWrapper_init_def Let_def split: sum.splits)





subsection \<open>C7: a module the constructor does not know\<close>

text \<open>
  The lookup of line 70 comes before the chain of lines 74 to 81, and both know the same
  three modules: the \<^verbatim>\<open>else\<close> branch of the chain is never reached.
\<close>

lemma init_OtherModule:
  "DigikeyApiWrapper_init env f (OtherModule m) cid csecret p sb log = (Inl KeyError, log)"
  by (simp add: DigikeyApiWrapper_init_def)

lemma else_branch_unreachable:
  "select_configuration env module = None \<Longrightarrow> apinames module = None"
  by (cases module) simp_all

text \<open>
  C7. Claim: for a module that is none of the three, the construction fails with the
  \<^verbatim>\<open>ValueError\<close> \<^verbatim>\<open>Invalid module provided\<close>, before any I/O.
  The code fails before any I/O, but with the \<^verbatim>\<open>KeyError\<close> of the dictionary lookup of
  line 70; here the module passed is \<^verbatim>\<open>sys\<close>.
\<close>

theorem C7_unknown_module_KeyError:
  "DigikeyApiWrapper_init sample_env ''product_details_with_http_info'' (OtherModule ''sys'')
     (Some ''id'') (Some ''secret'') ''/tmp/'' False [] = (Inl KeyError, [])"
  by (simp add: DigikeyApiWrapper_init_def)

subsection \<open>C8: the public operations leave the object alone\<close>

lemma call_api_function_try_io:
  "\<exists>rest. io_after (call_api_function_try env w args api_limits status kwargs log) = log @ rest"
  by (simp add: call_api_function_try_def Let_def split: option.splits sum.splits prod.splits)

lemma call_api_function_io:
  "\<exists>rest. io_after (call_api_function env w args api_limits status kwargs log) = log @ rest"
  using call_api_function_try_io [of env w args api_limits status kwargs log]
  by (auto simp: call_api_function_def Let_def split: sum.splits prod.splits)

lemma keyword_search_frame:
  "snd (keyword_search env self body api_limits status log) = self
 \<and> (\<exists>rest. io_after (fst (keyword_search env self body api_limits status log)) =
       snd (DigikeyApiWrapper_init env ''keyword_search_with_http_info'' ProductInformation
              (client_id self) (client_secret self) (storage_path self) (client_sandbox self) log)
       @ rest)"
proof (cases "DigikeyApiWrapper_init env ''keyword_search_with_http_info'' ProductInformation
              (client_id self) (client_secret self) (storage_path self) (client_sandbox self) log")
  case (Pair r log1)
  then show ?thesis
    using call_api_function_io [of env _ _ api_limits status _ log1]
    by (cases r) (auto simp: keyword_search_def raised_def)
qed

lemma product_details_frame:
  "snd (product_details env self digikey_part_number api_limits status log) = self
 \<and> (\<exists>rest. io_after (fst (product_details env self digikey_part_number api_limits status log)) =
       snd (DigikeyApiWrapper_init env ''product_details_with_http_info'' ProductInformation
              (client_id self) (client_secret self) (storage_path self) (client_sandbox self) log)
       @ rest)"
proof (cases "DigikeyApiWrapper_init env ''product_details_with_http_info'' ProductInformation
              (client_id self) (client_secret self) (storage_path self) (client_sandbox self) log")
  case (Pair r log1)
  then show ?thesis
    using call_api_function_io [of env _ _ api_limits status _ log1]
    by (cases r) (auto simp: product_details_def raised_def)
qed

lemma digi_reel_pricing_frame:
  "snd (digi_reel_pricing env self digikey_part_number quantity api_limits status log) = self
 \<and> (\<exists>rest. io_after (fst (digi_reel_pricing env self digikey_part_number quantity api_limits status log)) =
       snd (DigikeyApiWrapper_init env ''digi_reel_pricing_with_http_info'' ProductInformation
              (client_id self) (client_secret self) (storage_path self) (client_sandbox self) log)
       @ rest)"
proof (cases "DigikeyApiWrapper_init env ''digi_reel_pricing_with_http_info'' ProductInformation
              (client_id self) (client_secret self) (storage_path self) (client_sandbox self) log")
  case (Pair r log1)
  then show ?thesis
    using call_api_function_io [of env _ _ api_limits status _ log1]
    by (cases r) (auto simp: digi_reel_pricing_def raised_def)
qed

lemma suggested_parts_frame:
  "snd (suggested_parts env self digikey_part_number api_limits status log) = self
 \<and> (\<exists>rest. io_after (fst (suggested_parts env self digikey_part_number api_limits status log)) =
       snd (DigikeyApiWrapper_init env ''suggested_parts_with_http_info'' ProductInformation
              (client_id self) (client_secret self) (storage_path self) (client_sandbox self) log)
       @ rest)"
proof (cases "DigikeyApiWrapper_init env ''suggested_parts_with_http_info'' ProductInformation
              (client_id self) (client_secret self) (storage_path self) (client_sandbox self) log")
  case (Pair r log1)
  then show ?thesis
    using call_api_function_io [of env _ _ api_limits status _ log1]
    by (cases r) (auto simp: suggested_parts_def raised_def)
qed

lemma status_salesorder_id_frame:
  "snd (status_salesorder_id env self sales_order_id api_limits status log) = self
 \<and> (\<exists>rest. io_after (fst (status_salesorder_id env self sales_order_id api_limits status log)) =
       snd (DigikeyApiWrapper_init env ''order_status_with_http_info'' OrderSupport
              (client_id self) (client_secret self) (storage_path self) (client_sandbox self) log)
       @ rest)"
proof (cases "DigikeyApiWrapper_init env ''order_status_with_http_info'' OrderSupport
              (client_id self) (client_secret self) (storage_path self) (client_sandbox self) log")
  case (Pair r log1)
  then show ?thesis
    using call_api_function_io [of env _ _ api_limits status _ log1]
    by (cases r) (auto simp: status_salesorder_id_def raised_def)
qed

lemma salesorder_history_frame:
  "snd (salesorder_history env self start_date end_date api_limits status log) = self
 \<and> (\<exists>rest. io_after (fst (salesorder_history env self start_date end_date api_limits status log)) =
       snd (DigikeyApiWrapper_init env ''order_history_with_http_info'' OrderSupport
              (client_id self) (client_secret self) (storage_path self) (client_sandbox self) log)
       @ rest)"
proof (cases "DigikeyApiWrapper_init env ''order_history_with_http_info'' OrderSupport
              (client_id self) (client_secret self) (storage_path self) (client_sandbox self) log")
  case (Pair r log1)
  then show ?thesis
    using call_api_function_io [of env _ _ api_limits status _ log1]
    by (cases r) (auto simp: salesorder_history_def raised_def)
qed

lemma batch_product_details_frame:
  "snd (batch_product_details env self body api_limits status log) = self
 \<and> (\<exists>rest. io_after (fst (batch_product_details env self body api_limits status log)) =
       snd (DigikeyApiWrapper_init env ''batch_product_details_with_http_info'' BatchProductDetails
              (client_id self) (client_secret self) (storage_path self) (client_sandbox self) log)
       @ rest)"
proof (cases "DigikeyApiWrapper_init env ''batch_product_details_with_http_info'' BatchProductDetails
              (client_id self) (client_secret self) (storage_path self) (client_sandbox self) log")
  case (Pair r log1)
  then show ?thesis
    using call_api_function_io [of env _ _ api_limits status _ log1]
    by (cases r) (auto simp: batch_product_details_def raised_def)
qed

text \<open>
  C8. Each of the seven public operations returns the \<^verbatim>\<open>DigikeyApi\<close> object with its four
  fields as they were, and each constructs a wrapper of its own from those four fields:
  the I/O of the call begins with the I/O of that construction.
\<close>

theorem C8_object_unchanged:
  "snd (keyword_search env self body api_limits status log) = self
 \<and> (\<exists>rest. io_after (fst (keyword_search env self body api_limits status log)) =
       snd (DigikeyApiWrapper_init env ''keyword_search_with_http_info'' ProductInformation
              (client_id self) (client_secret self) (storage_path self) (client_sandbox self) log)
       @ rest)
 \<and> snd (product_details env self digikey_part_number api_limits status log) = self
 \<and> (\<exists>rest. io_after (fst (product_details env self digikey_part_number api_limits status log)) =
       snd (DigikeyApiWrapper_init env ''product_details_with_http_info'' ProductInformation
              (client_id self) (client_secret self) (storage_path self) (client_sandbox self) log)
       @ rest)
 \<and> snd (digi_reel_pricing env self digikey_part_number quantity api_limits status log) = self
 \<and> (\<exists>rest. io_after (fst (digi_reel_pricing env self digikey_part_number quantity api_limits status log)) =
       snd (DigikeyApiWrapper_init env ''digi_reel_pricing_with_http_info'' ProductInformation
              (client_id self) (client_secret self) (storage_path self) (client_sandbox self) log)
       @ rest)
 \<and> snd (suggested_parts env self digikey_part_number api_limits status log) = self
 \<and> (\<exists>rest. io_after (fst (suggested_parts env self digikey_part_number api_limits status log)) =
       snd (DigikeyApiWrapper_init env ''suggested_parts_with_http_info'' ProductInformation
              (client_id self) (client_secret self) (storage_path self) (client_sandbox self) log)
       @ rest)
 \<and> snd (status_salesorder_id env self sales_order_id api_limits status log) = self
 \<and> (\<exists>rest. io_after (fst (status_salesorder_id env self sales_order_id api_limits status log)) =
       snd (DigikeyApiWrapper_init env ''order_status_with_http_info'' OrderSupport
              (client_id self) (client_secret self) (storage_path self) (client_sandbox self) log)
       @ rest)
 \<and> snd (salesorder_history env self start_date end_date api_limits status log) = self
 \<and> (\<exists>rest. io_after (fst (salesorder_history env self start_date end_date api_limits status log)) =
       snd (DigikeyApiWrapper_init env ''order_history_with_http_info'' OrderSupport
              (client_id self) (client_secret self) (storage_path self) (client_sandbox self) log)
       @ rest)
 \<and> snd (batch_product_details env self body api_limits status log) = self
 \<and> (\<exists>rest. io_after (fst (batch_product_details env self body api_limits status log)) =
       snd (DigikeyApiWrapper_init env ''batch_product_details_with_http_info'' BatchProductDetails
              (client_id self) (client_secret self) (storage_path self) (client_sandbox self) log)
       @ rest)"
  by (simp only: keyword_search_frame product_details_frame digi_reel_pricing_frame
      suggested_parts_frame status_salesorder_id_frame salesorder_history_frame
      batch_product_details_frame simp_thms)

text \<open>C8 at a call that succeeds.\<close>

theorem C8_witness:
  "snd (product_details sample_env sample_api (PyStr ''296-24647-1-ND'') (Dict Map.empty)
          (Dict Map.empty) []) = sample_api"
  using C8_object_unchanged [of sample_env sample_api _ "Dict Map.empty" "Dict Map.empty" "[]"
      "PyStr ''296-24647-1-ND''"]
  by simp

subsection \<open>C9: sinks that are not dictionaries\<close>

lemma call_api_function_try_limits_NotDict:
  "call_api_function_try env self args (NotDict v) status kwargs log =
     (call_api_function_try env self args (NotDict PyNone) status kwargs log)
       \<lparr>api_limits_after := NotDict v\<rparr>"
  by (simp add: call_api_function_try_def Let_def remaining_requests_NotDict
      split: option.splits sum.splits prod.splits)

lemma call_api_function_limits_NotDict:
  "call_api_function env self args (NotDict v) status kwargs log =
     (call_api_function env self args (NotDict PyNone) status kwargs log)
       \<lparr>api_limits_after := NotDict v\<rparr>"
  unfolding call_api_function_def call_api_function_try_limits_NotDict [of env self args v]
  by (simp add: Let_def split: sum.splits prod.splits)

lemma call_api_function_try_status_NotDict:
  "call_api_function_try env self args api_limits (NotDict v) kwargs log =
     (call_api_function_try env self args api_limits (NotDict PyNone) kwargs log)
       \<lparr>status_after := NotDict v\<rparr>"
  by (simp add: call_api_function_try_def Let_def store_api_statuscode_NotDict
      split: option.splits sum.splits prod.splits)

lemma call_api_function_try_status_NotDict_after:
  "status_after (call_api_function_try env self args api_limits (NotDict v) kwargs log) =
     NotDict v"
  by (simp add: call_api_function_try_def Let_def store_api_statuscode_NotDict
      split: option.splits sum.splits prod.splits)

lemma call_api_function_status_NotDict:
  "call_api_function env self args api_limits (NotDict v) kwargs log =
     (call_api_function env self args api_limits (NotDict PyNone) kwargs log)
       \<lparr>status_after := NotDict v\<rparr>"
proof -
  have "call_api_function env self args api_limits (NotDict w) kwargs log =
        call_api_function_try env self args api_limits (NotDict w) kwargs log" for w
    by (simp add: call_api_function_def Let_def call_api_function_try_status_NotDict_after
        store_api_statuscode_NotDict split: sum.splits)
  then show ?thesis
    by (simp add: call_api_function_try_status_NotDict [of env self args api_limits v])
qed

text \<open>
  C9. An \<^verbatim>\<open>api_limits\<close> or \<^verbatim>\<open>status\<close> that is \<^verbatim>\<open>None\<close> or any other value that is not
  a dictionary is never written: both recording steps return normally and leave it as it
  is, so does the whole call, and what the call returns or raises, and what it does to
  the other sink, is what it does when the argument is left at its default \<^verbatim>\<open>None\<close>.
\<close>

theorem C9_non_dict_sinks_skipped:
  "remaining_requests limit header (NotDict v) = (Inr (), NotDict v)
 \<and> store_api_statuscode limit statuscode (NotDict v) = (Inr (), NotDict v)
 \<and> api_limits_after (call_api_function env self args (NotDict v) status kwargs log) = NotDict v
 \<and> status_after (call_api_function env self args api_limits (NotDict v) kwargs log) = NotDict v
 \<and> returned (call_api_function env self args (NotDict v) status kwargs log) =
     returned (call_api_function env self args (NotDict PyNone) status kwargs log)
 \<and> status_after (call_api_function env self args (NotDict v) status kwargs log) =
     status_after (call_api_function env self args (NotDict PyNone) status kwargs log)
 \<and> returned (call_api_function env self args api_limits (NotDict v) kwargs log) =
     returned (call_api_function env self args api_limits (NotDict PyNone) kwargs log)
 \<and> api_limits_after (call_api_function env self args api_limits (NotDict v) kwargs log) =
     api_limits_after (call_api_function env self args api_limits (NotDict PyNone) kwargs log)"
proof -
  note l = call_api_function_limits_NotDict [of env self args v status kwargs log]
  note s = call_api_function_status_NotDict [of env self args api_limits v kwargs log]
  show ?thesis
    by (simp add: remaining_requests_NotDict store_api_statuscode_NotDict l s)
qed

subsection \<open>C10: the two limits agree\<close>

text \<open>
  When the first value parses and the second does not, the \<^verbatim>\<open>try\<close> block has already
  stored the first; the \<^verbatim>\<open>except\<close> clause then overwrites both.
\<close>

lemma remaining_requests_try_second_malformed:
  "remaining_requests_try limit
     [''X-RateLimit-Limit'' \<mapsto> ''120'', ''X-RateLimit-Remaining'' \<mapsto> ''abc''] (Dict Map.empty) =
   (Inl (ValueError ''invalid literal for int()''), Dict [''api_requests_limit'' \<mapsto> PyInt 120])"
  by (simp add: remaining_requests_try_def py_int_120 py_int_abc)

lemma second_malformed:
  "[''X-RateLimit-Limit'' \<mapsto> ''120'', ''X-RateLimit-Remaining'' \<mapsto> ''abc''] ''X-RateLimit-Limit'' =
     Some ''120''"
  "[''X-RateLimit-Limit'' \<mapsto> ''120'', ''X-RateLimit-Remaining'' \<mapsto> ''abc'']
     ''X-RateLimit-Remaining'' = Some ''abc''"
  by simp_all

text \<open>
  C10. On any header and any dictionary, \<^verbatim>\<open>_remaining_requests\<close> returns, and the
  dictionary then has both keys and is otherwise as it was. Either the header has both
  values and \<^verbatim>\<open>int\<close> accepts both, and the two keys hold the two integers that \<^verbatim>\<open>int\<close>
  gives for them; or a value is missing or rejected, and the two keys both hold
  \<^verbatim>\<open>None\<close>.
\<close>

theorem C10_limits_coherent:
  "\<exists>d'. remaining_requests limit header (Dict d) = (Inr (), Dict d')
      \<and> d' ''api_requests_limit'' \<noteq> None
      \<and> d' ''api_requests_remaining'' \<noteq> None
      \<and> ((\<exists>a b l r. header ''X-RateLimit-Limit'' = Some a
                   \<and> header ''X-RateLimit-Remaining'' = Some b
                   \<and> py_int limit a = Some l \<and> py_int limit b = Some r
                   \<and> d' = d(''api_requests_limit'' \<mapsto> PyInt l,
                            ''api_requests_remaining'' \<mapsto> PyInt r))
         \<or> ((header ''X-RateLimit-Limit'' = None \<or> header ''X-RateLimit-Remaining'' = None
              \<or> (\<exists>a. header ''X-RateLimit-Limit'' = Some a \<and> py_int limit a = None)
              \<or> (\<exists>b. header ''X-RateLimit-Remaining'' = Some b \<and> py_int limit b = None))
             \<and> d' = d(''api_requests_limit'' \<mapsto> PyNone,
                      ''api_requests_remaining'' \<mapsto> PyNone)))"
proof (cases "\<exists>a b l r. header ''X-RateLimit-Limit'' = Some a
                 \<and> header ''X-RateLimit-Remaining'' = Some b
                 \<and> py_int limit a = Some l \<and> py_int limit b = Some r")
  case True
  then obtain a b l r where
    "header ''X-RateLimit-Limit'' = Some a" "header ''X-RateLimit-Remaining'' = Some b"
    "py_int limit a = Some l" "py_int limit b = Some r"
    by blast
  then show ?thesis
    using remaining_requests_Dict_parsed [of header a b limit l r d] by auto
next
  case False
  then have bad:
    "header ''X-RateLimit-Limit'' = None \<or> header ''X-RateLimit-Remaining'' = None
     \<or> (\<exists>a. header ''X-RateLimit-Limit'' = Some a \<and> py_int limit a = None)
     \<or> (\<exists>b. header ''X-RateLimit-Remaining'' = Some b \<and> py_int limit b = None)"
    by (cases "header ''X-RateLimit-Limit''"; cases "header ''X-RateLimit-Remaining''") auto
  show ?thesis
    using bad remaining_requests_Dict_unknown [OF bad, of d] by auto
qed

text \<open>
  C10 where the second value is malformed: the integer stored for the first is gone.
\<close>

theorem C10_witness:
  "remaining_requests 4300
     [''X-RateLimit-Limit'' \<mapsto> ''120'', ''X-RateLimit-Remaining'' \<mapsto> ''abc''] (Dict Map.empty) =
   (Inr (), Dict [''api_requests_limit'' \<mapsto> PyNone, ''api_requests_remaining'' \<mapsto> PyNone])"
  using C10_limits_coherent [of 4300
      "[''X-RateLimit-Limit'' \<mapsto> ''120'', ''X-RateLimit-Remaining'' \<mapsto> ''abc'']" Map.empty]
  by (auto simp: py_int_abc)

end
